theory Spec2Isabelle
  imports Complex_Main "HOL-Library.Word"
begin

section \<open>SpaceX launch records dashboard: the data and the two chart callbacks\<close>

subsection \<open>Numbers\<close>

text \<open>
  \<^verbatim>\<open>read_csv\<close> gives the payload column the dtype \<^verbatim>\<open>int64\<close> when every cell of
  the file is an integer and \<^verbatim>\<open>float64\<close> otherwise, so the cells of a loaded column
  are all of one kind. A slider bound arrives as a JSON number, a Python \<^verbatim>\<open>int\<close> or a
  Python \<^verbatim>\<open>float\<close>. A number is therefore a 64-bit signed integer or a float64; a
  finite float64 is represented by the real number it denotes, and the integers of the
  bounds are taken in the 64-bit range that the integers of the column have.
\<close>

datatype number = Int64 "64 word" | Float64 real

text \<open>The mathematical value of a number.\<close>

fun value_of :: "number \<Rightarrow> real" where
  "value_of (Int64 w) = real_of_int (sint w)"
| "value_of (Float64 x) = x"

text \<open>
  Conversion of an integer to float64. A float64 has a significand of 53 bits: below
  \<open>2 ^ 53\<close> the representable integers are spaced by 1, from \<open>2 ^ 53\<close> by 2, from
  \<open>2 ^ 54\<close> by 4, and so on. The integer is rounded to the nearest multiple of the
  spacing at its magnitude, and a tie goes to the multiple whose significand is even.
\<close>

function float64_spacing :: "int \<Rightarrow> int" where
  "float64_spacing a = (if a < 2 ^ 53 then 1 else 2 * float64_spacing (a div 2))"
  by pat_completeness auto
termination
  by (relation "measure nat") auto

declare float64_spacing.simps [simp del]

definition to_float64 :: "int \<Rightarrow> real" where
  "to_float64 n =
     (let a = \<bar>n\<bar>; u = float64_spacing a; q = a div u; r = a mod u;
          q' = (if u < 2 * r \<or> (2 * r = u \<and> odd q) then q + 1 else q)
      in real_of_int (sgn n * (q' * u)))"

fun as_float64 :: "number \<Rightarrow> real" where
  "as_float64 (Int64 w) = to_float64 (sint w)"
| "as_float64 (Float64 x) = x"

text \<open>
  \<^verbatim>\<open>x >= v\<close> and \<^verbatim>\<open>x <= v\<close> for a cell \<open>x\<close> of a column and a scalar \<open>v\<close>: an
  integer cell and an integer scalar are compared as integers; in every other case both
  sides are compared as float64, an integer cell or an integer scalar being converted
  first.
\<close>

fun number_ge :: "number \<Rightarrow> number \<Rightarrow> bool" where
  "number_ge (Int64 a) (Int64 b) = (sint b \<le> sint a)"
| "number_ge x v = (as_float64 v \<le> as_float64 x)"

fun number_le :: "number \<Rightarrow> number \<Rightarrow> bool" where
  "number_le (Int64 a) (Int64 b) = (sint a \<le> sint b)"
| "number_le x v = (as_float64 x \<le> as_float64 v)"

text \<open>
  The comparison of a cell with a scalar is exact when no conversion changes a value:
  both are integers, or both are floats, or the integer among them is a float64 as it
  stands (every integer of magnitude at most \<open>2 ^ 53\<close> is).
\<close>

fun exact_against :: "number \<Rightarrow> number \<Rightarrow> bool" where
  "exact_against (Int64 a) (Int64 b) = True"
| "exact_against x v = (as_float64 x = value_of x \<and> as_float64 v = value_of v)"

subsection \<open>Launch records\<close>

text \<open>
  One line of \<^verbatim>\<open>spacex_launch_dash.csv\<close>, with the four columns the script reads:
  \<^verbatim>\<open>'Launch Site'\<close>, \<^verbatim>\<open>'Payload Mass (kg)'\<close>, \<^verbatim>\<open>'class'\<close> and
  \<^verbatim>\<open>'Booster Version Category'\<close>. The payload mass is a number that the script only
  ever compares; the outcome class is a non-negative integer column that the pie chart
  sums (1 for a successful launch, 0 for a failed one). A data frame is the list of its
  rows in index order.
\<close>

record row =
  Launch_Site :: string
  Payload_Mass :: number
  outcome_class :: nat
  Booster_Version_Category :: string

type_synonym dataframe = "row list"

subsection \<open>The pandas operations the script uses\<close>

text \<open>
  A comparison of a column with a scalar (\<^verbatim>\<open>col >= low\<close>, \<^verbatim>\<open>col <= high\<close>,
  \<^verbatim>\<open>col == site\<close>) gives a boolean mask with one entry per row; \<^verbatim>\<open>&\<close> combines two
  masks entry by entry; \<^verbatim>\<open>df[mask]\<close> is a new frame holding the rows whose mask entry
  is true, in their order. The payload comparisons are the comparisons of numbers given
  above, with their conversion to float64 when an integer meets a float.
\<close>

definition ge_mask :: "number list \<Rightarrow> number \<Rightarrow> bool list" where
  "ge_mask col v = map (\<lambda>x. number_ge x v) col"

definition le_mask :: "number list \<Rightarrow> number \<Rightarrow> bool list" where
  "le_mask col v = map (\<lambda>x. number_le x v) col"

text \<open>
  The selected site arrives from the dropdown as a string, or as \<^verbatim>\<open>None\<close> when the
  selection has been cleared; a column of strings compared with \<^verbatim>\<open>None\<close> is false in
  every row.
\<close>

definition eq_mask :: "string list \<Rightarrow> string option \<Rightarrow> bool list" where
  "eq_mask col v = map (\<lambda>x. Some x = v) col"

definition and_mask :: "bool list \<Rightarrow> bool list \<Rightarrow> bool list" where
  "and_mask m1 m2 = map (\<lambda>(a, b). a \<and> b) (zip m1 m2)"

definition boolean_index :: "'a list \<Rightarrow> bool list \<Rightarrow> 'a list" where
  "boolean_index df msk = map fst (filter snd (zip df msk))"

text \<open>
  \<^verbatim>\<open>groupby(['class']).size().reset_index(name='class count')\<close>: one line per value
  that occurs in the key column, in ascending order of the key, with the number of rows
  that carry it.
\<close>

definition groupby_size :: "nat list \<Rightarrow> (nat \<times> nat) list" where
  "groupby_size ks =
     map (\<lambda>k. (k, length (filter (\<lambda>x. x = k) ks))) (sort (remdups ks))"

text \<open>\<^verbatim>\<open>unique()\<close>: the distinct values of a column in order of first appearance.\<close>

fun unique :: "'a list \<Rightarrow> 'a list" where
  "unique [] = []"
| "unique (x # xs) = x # unique (filter (\<lambda>y. y \<noteq> x) xs)"

text \<open>
  \<^verbatim>\<open>max()\<close> and \<^verbatim>\<open>min()\<close> of a column; of an empty column they are not a number,
  which is \<open>None\<close> here.
\<close>

fun column_max :: "number list \<Rightarrow> number option" where
  "column_max [] = None"
| "column_max (x # xs) = Some (fold (\<lambda>c m. if value_of m < value_of c then c else m) xs x)"

fun column_min :: "number list \<Rightarrow> number option" where
  "column_min [] = None"
| "column_min (x # xs) = Some (fold (\<lambda>c m. if value_of c < value_of m then c else m) xs x)"

subsection \<open>The row filters of the callbacks\<close>

text \<open>
  \<^verbatim>\<open>spacex_df[(spacex_df['Payload Mass (kg)'] >= low) & (spacex_df['Payload Mass (kg)'] <= high)]\<close>
\<close>

definition filterByPayloadRange :: "dataframe \<Rightarrow> number \<Rightarrow> number \<Rightarrow> dataframe" where
  "filterByPayloadRange df low high =
     boolean_index df
       (and_mask (ge_mask (map Payload_Mass df) low) (le_mask (map Payload_Mass df) high))"

text \<open>\<^verbatim>\<open>df[df['Launch Site'] == entered_site]\<close>\<close>

definition filterBySite :: "dataframe \<Rightarrow> string option \<Rightarrow> dataframe" where
  "filterBySite df entered_site = boolean_index df (eq_mask (map Launch_Site df) entered_site)"

text \<open>
  The frame \<^verbatim>\<open>site_df\<close> of the pie callback: the rows of one site, grouped by outcome
  class and counted.
\<close>

definition siteOutcomeCounts :: "dataframe \<Rightarrow> string option \<Rightarrow> (nat \<times> nat) list" where
  "siteOutcomeCounts df entered_site =
     groupby_size (map outcome_class (filterBySite df entered_site))"

subsection \<open>Figures\<close>

text \<open>
  The script builds three kinds of figure, one per call of the plotting library. A figure
  is modelled by what the call hands over: the frame and the title (the column bindings
  are fixed at each call site).
  \<^item> \<open>Pie_by_site df title\<close> is
    \<^verbatim>\<open>px.pie(df, values='class', names='Launch Site', title=title)\<close>;
  \<^item> \<open>Pie_by_class site_df title\<close> is
    \<^verbatim>\<open>px.pie(site_df, values='class count', names='class', title=title)\<close>;
  \<^item> \<open>Scatter df title\<close> is
    \<^verbatim>\<open>px.scatter(df, x='Payload Mass (kg)', y='class', color='Booster Version Category', title=title)\<close>.
\<close>

datatype figure =
    Pie_by_site dataframe string
  | Pie_by_class "(nat \<times> nat) list" string
  | Scatter dataframe string

text \<open>
  A pie trace whose names repeat shows one sector per distinct name, and the sector's
  value is the sum of the values of the rows with that name. A name all of whose rows have
  the value 0 is listed with the total 0; whether such a sector is drawn is left to the
  renderer.
\<close>

definition pie_sectors :: "('l \<times> nat) list \<Rightarrow> ('l \<times> nat) list" where
  "pie_sectors pts =
     map (\<lambda>l. (l, sum_list (map snd (filter (\<lambda>p. fst p = l) pts)))) (unique (map fst pts))"

text \<open>What \<open>Pie_by_site df title\<close> shows: per launch site, the sum of the class column.\<close>

definition siteSuccessTotals :: "dataframe \<Rightarrow> (string \<times> nat) list" where
  "siteSuccessTotals df = pie_sectors (map (\<lambda>r. (Launch_Site r, outcome_class r)) df)"

subsection \<open>Module state and the callbacks\<close>

text \<open>
  The module-level names bound when the script starts: the loaded table, the extreme
  payload masses and the list of launch sites. The callbacks read \<open>spacex_df\<close>; they are
  modelled in state-passing style, taking the module state and returning it with the
  result.
\<close>

record globals =
  spacex_df :: dataframe
  max_payload :: "number option"
  min_payload :: "number option"
  launch_sites :: "string list"

definition load :: "dataframe \<Rightarrow> globals" where
  "load csv =
     \<lparr> spacex_df = csv,
       max_payload = column_max (map Payload_Mass csv),
       min_payload = column_min (map Payload_Mass csv),
       launch_sites = unique (map Launch_Site csv) \<rparr>"

text \<open>How an f-string prints the selected site.\<close>

fun format_site :: "string option \<Rightarrow> string" where
  "format_site None = ''None''"
| "format_site (Some s) = s"

definition get_pie_chart :: "string option \<Rightarrow> globals \<Rightarrow> figure \<times> globals" where
  "get_pie_chart entered_site g =
     (if entered_site = Some ''ALL'' then
        (Pie_by_site (spacex_df g) ''Total Success Launches By Site'', g)
      else
        (let filtered_df = filterBySite (spacex_df g) entered_site;
             site_df = groupby_size (map outcome_class filtered_df)
         in (Pie_by_class site_df
               (''Total Success vs. Failure for Site '' @ format_site entered_site), g)))"

text \<open>
  \<^verbatim>\<open>low, high = payload_range\<close> raises \<^verbatim>\<open>ValueError\<close> unless the list has exactly two
  entries.
\<close>

datatype error = ValueError

definition update_scatter_chart ::
  "string option \<Rightarrow> number list \<Rightarrow> globals \<Rightarrow> (error + figure) \<times> globals" where
  "update_scatter_chart entered_site payload_range g =
     (case payload_range of
        [low, high] \<Rightarrow>
          (let df = filterByPayloadRange (spacex_df g) low high in
           if entered_site = Some ''ALL'' then
             (Inr (Scatter df ''Payload vs. Outcome for All Sites''), g)
           else
             (let filtered_df = filterBySite df entered_site
              in (Inr (Scatter filtered_df
                         (''Payload vs. Outcome for site '' @ format_site entered_site)), g)))
      | _ \<Rightarrow> (Inl ValueError, g))"

subsection \<open>Serving requests\<close>

text \<open>
  The two functions are registered as callbacks of the application: the framework calls
  \<^verbatim>\<open>get_pie_chart\<close> with the dropdown value, and \<^verbatim>\<open>update_scatter_chart\<close> with the
  dropdown value and the slider value, one call after the other. \<open>serve\<close> runs one such
  call and keeps the module state it leaves behind.
\<close>

datatype request =
    Pie_request "string option"
  | Scatter_request "string option" "number list"

definition serve :: "request \<Rightarrow> globals \<Rightarrow> globals" where
  "serve req g =
     (case req of
        Pie_request entered_site \<Rightarrow> snd (get_pie_chart entered_site g)
      | Scatter_request entered_site payload_range \<Rightarrow>
          snd (update_scatter_chart entered_site payload_range g))"

subsection \<open>The scenario table\<close>

text \<open>
  Three launches from two sites, used to run the callbacks on concrete inputs. Every
  payload mass is an integer, so the column is an \<^verbatim>\<open>int64\<close> column.
\<close>

definition example_launches :: dataframe where
  "example_launches =
     [\<lparr>Launch_Site = ''SiteA'', Payload_Mass = Int64 500, outcome_class = 1,
        Booster_Version_Category = ''v1''\<rparr>,
      \<lparr>Launch_Site = ''SiteA'', Payload_Mass = Int64 1500, outcome_class = 0,
        Booster_Version_Category = ''v1''\<rparr>,
      \<lparr>Launch_Site = ''SiteB'', Payload_Mass = Int64 3000, outcome_class = 1,
        Booster_Version_Category = ''v2''\<rparr>]"

section \<open>Properties\<close>

subsection \<open>Masks, groups and sums\<close>

text \<open>Indexing by masks computed from the frame itself is a filter on the rows.\<close>

lemma boolean_index_map: "boolean_index xs (map P xs) = filter P xs"
  unfolding boolean_index_def by (induction xs) auto

lemma and_mask_map: "and_mask (map P xs) (map Q xs) = map (\<lambda>x. P x \<and> Q x) xs"
  unfolding and_mask_def by (induction xs) auto

lemma filterByPayloadRange_filter:
  "filterByPayloadRange df low high =
     filter (\<lambda>r. number_ge (Payload_Mass r) low \<and> number_le (Payload_Mass r) high) df"
  unfolding filterByPayloadRange_def ge_mask_def le_mask_def
  by (simp add: and_mask_map boolean_index_map[symmetric] comp_def)

lemma filterBySite_filter:
  "filterBySite df site = filter (\<lambda>r. Some (Launch_Site r) = site) df"
  unfolding filterBySite_def eq_mask_def
  by (simp add: boolean_index_map[symmetric] comp_def)

lemma set_unique: "set (unique xs) = set xs"
  by (induction xs rule: unique.induct) auto

lemma distinct_unique: "distinct (unique xs)"
  by (induction xs rule: unique.induct) (auto simp: set_unique)

lemma sum_groups:
  assumes "finite K" and "f ` set xs \<subseteq> K"
  shows "(\<Sum>k\<in>K. sum_list (map w (filter (\<lambda>x. f x = k) xs))) = sum_list (map (w :: 'a \<Rightarrow> nat) xs)"
  using assms(2)
proof (induction xs)
  case Nil
  show ?case by simp
next
  case (Cons x xs)
  have "(\<Sum>k\<in>K. sum_list (map w (filter (\<lambda>y. f y = k) (x # xs)))) =
        (\<Sum>k\<in>K. (if f x = k then w x else 0) + sum_list (map w (filter (\<lambda>y. f y = k) xs)))"
    by (intro sum.cong) auto
  also have "\<dots> = (\<Sum>k\<in>K. if f x = k then w x else 0)
                  + (\<Sum>k\<in>K. sum_list (map w (filter (\<lambda>y. f y = k) xs)))"
    by (simp add: sum.distrib)
  also have "(\<Sum>k\<in>K. if f x = k then w x else 0) = w x"
    using assms(1) Cons.prems by (simp add: sum.delta')
  also have "(\<Sum>k\<in>K. sum_list (map w (filter (\<lambda>y. f y = k) xs))) = sum_list (map w xs)"
    using Cons by simp
  finally show ?case by simp
qed

lemma sum_pie_sectors: "sum_list (map snd (pie_sectors pts)) = sum_list (map snd pts)"
proof -
  have "sum_list (map snd (pie_sectors pts)) =
        (\<Sum>l\<leftarrow>unique (map fst pts). sum_list (map snd (filter (\<lambda>p. fst p = l) pts)))"
    by (simp add: pie_sectors_def comp_def)
  also have "\<dots> = (\<Sum>l\<in>set (map fst pts). sum_list (map snd (filter (\<lambda>p. fst p = l) pts)))"
    by (simp add: sum_list_distinct_conv_sum_set distinct_unique set_unique)
  also have "\<dots> = sum_list (map snd pts)"
    by (rule sum_groups) auto
  finally show ?thesis .
qed

lemma sum_groupby_size: "sum_list (map snd (groupby_size ks)) = length ks"
proof -
  have "sum_list (map snd (groupby_size ks)) =
        (\<Sum>k\<leftarrow>sort (remdups ks). length (filter (\<lambda>x. x = k) ks))"
    by (simp add: groupby_size_def comp_def)
  also have "\<dots> = (\<Sum>k\<in>set ks. length (filter (\<lambda>x. x = k) ks))"
    by (simp add: sum_list_distinct_conv_sum_set)
  also have "\<dots> = (\<Sum>k\<in>set ks. sum_list (map (\<lambda>_. 1) (filter (\<lambda>x. id x = k) ks)))"
    by (simp add: sum_list_triv)
  also have "\<dots> = sum_list (map (\<lambda>_. 1) ks)"
    by (rule sum_groups) auto
  finally show ?thesis by (simp add: sum_list_triv)
qed

lemma sum_binary_column:
  "\<forall>x\<in>set xs. x \<le> (1::nat) \<Longrightarrow> sum_list xs = length (filter (\<lambda>x. x = 1) xs)"
  by (induction xs) (auto simp: le_Suc_eq)

lemma length_filter_map:
  "length (filter (\<lambda>x. x = c) (map f xs)) = length (filter (\<lambda>r. f r = c) xs)"
  by (induction xs) auto

text \<open>The grouped frame: its keys and its lines.\<close>

lemma set_groupby_size:
  "set (groupby_size ks) = (\<lambda>k. (k, length (filter (\<lambda>x. x = k) ks))) ` set ks"
  by (simp add: groupby_size_def)

lemma keys_groupby_size: "map fst (groupby_size ks) = sorted_list_of_set (set ks)"
  by (simp add: groupby_size_def comp_def sorted_list_of_set_sort_remdups)

text \<open>
  For a selected site other than \<^verbatim>\<open>'ALL'\<close>, the pie callback draws the frame that
  \<open>siteOutcomeCounts\<close> computes from the loaded table.
\<close>

lemma get_pie_chart_site:
  "entered_site \<noteq> Some ''ALL'' \<Longrightarrow>
   fst (get_pie_chart entered_site g) =
     Pie_by_class (siteOutcomeCounts (spacex_df g) entered_site)
       (''Total Success vs. Failure for Site '' @ format_site entered_site)"
  by (simp add: get_pie_chart_def siteOutcomeCounts_def Let_def)

text \<open>Neither callback writes to the module state.\<close>

lemma snd_get_pie_chart: "snd (get_pie_chart entered_site g) = g"
  by (simp add: get_pie_chart_def Let_def)

lemma snd_update_scatter_chart: "snd (update_scatter_chart entered_site payload_range g) = g"
  by (simp add: update_scatter_chart_def Let_def split: list.splits)

lemma serve_state: "serve req g = g"
  by (cases req) (simp_all add: serve_def snd_get_pie_chart snd_update_scatter_chart)

lemma fold_serve_state: "fold serve reqs g = g"
  by (induction reqs arbitrary: g) (simp_all add: serve_state)

subsection \<open>Conversion to float64\<close>

lemma spacing_small: "a < 2 ^ 53 \<Longrightarrow> float64_spacing a = 1"
  by (simp add: float64_spacing.simps)

lemma spacing_2_53: "float64_spacing 9007199254740992 = 2"
proof -
  have "float64_spacing 9007199254740992 = 2 * float64_spacing 4503599627370496"
    by (subst float64_spacing.simps) simp
  also have "float64_spacing 4503599627370496 = 1"
    by (rule spacing_small) simp
  finally show ?thesis by simp
qed

lemma spacing_2_53_1: "float64_spacing 9007199254740993 = 2"
proof -
  have "float64_spacing 9007199254740993 = 2 * float64_spacing 4503599627370496"
    by (subst float64_spacing.simps) simp
  also have "float64_spacing 4503599627370496 = 1"
    by (rule spacing_small) simp
  finally show ?thesis by simp
qed

text \<open>Every integer of magnitude at most \<open>2 ^ 53\<close> is converted without change.\<close>

lemma to_float64_exact: "\<bar>n\<bar> \<le> 2 ^ 53 \<Longrightarrow> to_float64 n = real_of_int n"
proof -
  assume b: "\<bar>n\<bar> \<le> 2 ^ 53"
  show ?thesis
  proof (cases "\<bar>n\<bar> < 2 ^ 53")
    case True
    then have "float64_spacing \<bar>n\<bar> = 1" by (rule spacing_small)
    then have "to_float64 n = real_of_int (sgn n * \<bar>n\<bar>)"
      unfolding to_float64_def by (simp add: Let_def del: of_int_mult)
    then show ?thesis by (simp only: mult_sgn_abs)
  next
    case False
    with b have "n = 9007199254740992 \<or> n = - 9007199254740992" by auto
    then show ?thesis
      by (auto simp: to_float64_def Let_def spacing_2_53)
  qed
qed

text \<open>\<open>2 ^ 53 + 1\<close> lies halfway between two float64 values and goes to \<open>2 ^ 53\<close>.\<close>

lemma to_float64_2_53_1: "to_float64 9007199254740993 = 9007199254740992"
  by (simp add: to_float64_def spacing_2_53_1 Let_def)

text \<open>An exact comparison compares the values.\<close>

lemma number_ge_exact: "exact_against x v \<Longrightarrow> number_ge x v = (value_of v \<le> value_of x)"
  by (cases x; cases v) (simp_all del: of_int_sint)

lemma number_le_exact: "exact_against x v \<Longrightarrow> number_le x v = (value_of x \<le> value_of v)"
  by (cases x; cases v) (simp_all del: of_int_sint)

subsection \<open>The payload filter\<close>

text \<open>
  C2, as stated, fails: an integer column compared with a float bound is converted to
  float64 first. The payload mass \<open>2 ^ 53 + 1\<close> becomes \<open>2 ^ 53\<close>, so with the bounds
  0 and \<open>2 ^ 53\<close> (a float) the row is kept although its payload mass exceeds the upper
  bound.
\<close>

theorem filterByPayloadRange_rounding_counterexample:
  "value_of (Int64 0) \<le> value_of (Float64 9007199254740992)
   \<and> filterByPayloadRange
         [\<lparr>Launch_Site = ''SiteA'', Payload_Mass = Int64 9007199254740993, outcome_class = 1,
            Booster_Version_Category = ''v1''\<rparr>]
         (Int64 0) (Float64 9007199254740992) =
       [\<lparr>Launch_Site = ''SiteA'', Payload_Mass = Int64 9007199254740993, outcome_class = 1,
          Booster_Version_Category = ''v1''\<rparr>]
   \<and> value_of (Float64 9007199254740992) < value_of (Int64 9007199254740993)
   \<and> fst (update_scatter_chart (Some ''ALL'') [Int64 0, Float64 9007199254740992]
           (load [\<lparr>Launch_Site = ''SiteA'', Payload_Mass = Int64 9007199254740993,
                    outcome_class = 1, Booster_Version_Category = ''v1''\<rparr>])) =
       Inr (Scatter
             [\<lparr>Launch_Site = ''SiteA'', Payload_Mass = Int64 9007199254740993,
                outcome_class = 1, Booster_Version_Category = ''v1''\<rparr>]
             ''Payload vs. Outcome for All Sites'')"
  by (simp add: update_scatter_chart_def load_def filterByPayloadRange_filter
        to_float64_2_53_1)

text \<open>
  C2, amended. When the comparison of every payload mass of the table with each of the two
  bounds is exact, and \<open>low \<le> high\<close>, the payload filter returns exactly the rows whose
  payload mass lies between the bounds, in their order, and both ends are included: a
  row whose payload mass equals \<open>low\<close> or equals \<open>high\<close> is kept.
\<close>

theorem filterByPayloadRange_inclusive:
  assumes "\<forall>r\<in>set df. exact_against (Payload_Mass r) low \<and> exact_against (Payload_Mass r) high"
    and "value_of low \<le> value_of high"
  shows "filterByPayloadRange df low high =
           filter (\<lambda>r. value_of low \<le> value_of (Payload_Mass r)
                      \<and> value_of (Payload_Mass r) \<le> value_of high) df
         \<and> (\<forall>r\<in>set df. value_of (Payload_Mass r) = value_of low
                         \<or> value_of (Payload_Mass r) = value_of high
               \<longrightarrow> r \<in> set (filterByPayloadRange df low high))"
proof -
  have eq: "filterByPayloadRange df low high =
           filter (\<lambda>r. value_of low \<le> value_of (Payload_Mass r)
                      \<and> value_of (Payload_Mass r) \<le> value_of high) df"
    unfolding filterByPayloadRange_filter using assms(1)
    by (intro filter_cong refl) (simp add: number_ge_exact number_le_exact)
  show ?thesis
    unfolding eq using assms(2) by auto
qed

text \<open>
  On the scenario table an integer lower bound 500 and a float upper bound 1500 keep the
  two rows that carry these payload masses.
\<close>

theorem filterByPayloadRange_inclusive_witness:
  "list_all (\<lambda>r. exact_against (Payload_Mass r) (Int64 500)
                 \<and> exact_against (Payload_Mass r) (Float64 1500)) example_launches
   \<and> value_of (Int64 500) \<le> value_of (Float64 1500)
   \<and> filterByPayloadRange example_launches (Int64 500) (Float64 1500) = take 2 example_launches
   \<and> value_of (Payload_Mass (example_launches ! 0)) = value_of (Int64 500)
   \<and> example_launches ! 0 \<in> set (filterByPayloadRange example_launches (Int64 500) (Float64 1500))
   \<and> value_of (Payload_Mass (example_launches ! 1)) = value_of (Float64 1500)
   \<and> example_launches ! 1 \<in> set (filterByPayloadRange example_launches (Int64 500) (Float64 1500))"
proof -
  have h: "\<forall>r\<in>set example_launches. exact_against (Payload_Mass r) (Int64 500)
             \<and> exact_against (Payload_Mass r) (Float64 1500)"
    by (simp add: example_launches_def to_float64_exact)
  have v: "value_of (Int64 500) \<le> value_of (Float64 1500)" by simp
  from filterByPayloadRange_inclusive [OF h v] h v show ?thesis
    by (simp add: example_launches_def list_all_iff)
qed

text \<open>
  C3. The payload filter is idempotent: filtering a filtered frame again with the same
  bounds returns it unchanged. This holds for all bounds, in particular for
  \<open>low \<le> high\<close>.
\<close>

theorem filterByPayloadRange_idempotent:
  "filterByPayloadRange (filterByPayloadRange df low high) low high =
     filterByPayloadRange df low high"
  by (simp add: filterByPayloadRange_filter)

text \<open>
  C5. The payload filter and the site filter commute: applying them in either order gives
  the same frame.
\<close>

theorem filters_commute:
  "filterBySite (filterByPayloadRange df low high) site =
     filterByPayloadRange (filterBySite df site) low high"
  by (auto simp: filterByPayloadRange_filter filterBySite_filter intro: filter_cong)

text \<open>
  C10, as stated, fails: an integer bound compared with a float column is converted to
  float64 first. With the bounds \<open>2 ^ 53 + 1\<close> and \<open>2 ^ 53\<close>, which are inverted, the
  lower bound becomes \<open>2 ^ 53\<close>, and a row whose payload mass is the float \<open>2 ^ 53\<close>
  passes both comparisons: the filter and the scatter callback return it.
\<close>

theorem inverted_range_rounding_counterexample:
  "value_of (Int64 9007199254740992) < value_of (Int64 9007199254740993)
   \<and> filterByPayloadRange
         [\<lparr>Launch_Site = ''SiteA'', Payload_Mass = Float64 9007199254740992, outcome_class = 1,
            Booster_Version_Category = ''v1''\<rparr>]
         (Int64 9007199254740993) (Int64 9007199254740992) \<noteq> []
   \<and> fst (update_scatter_chart (Some ''ALL'')
           [Int64 9007199254740993, Int64 9007199254740992]
           (load [\<lparr>Launch_Site = ''SiteA'', Payload_Mass = Float64 9007199254740992,
                    outcome_class = 1, Booster_Version_Category = ''v1''\<rparr>])) =
       Inr (Scatter
             [\<lparr>Launch_Site = ''SiteA'', Payload_Mass = Float64 9007199254740992,
                outcome_class = 1, Booster_Version_Category = ''v1''\<rparr>]
             ''Payload vs. Outcome for All Sites'')"
  by (simp add: update_scatter_chart_def load_def filterByPayloadRange_filter
        to_float64_2_53_1 to_float64_exact)

text \<open>
  C10, amended. When the comparison of every payload mass of the loaded table with each
  of the two bounds is exact, and the bounds are inverted (\<open>high < low\<close>), the payload
  filter returns no rows, and the scatter callback returns a figure over the empty frame
  and does not raise.
\<close>

theorem inverted_range_empty:
  assumes "\<forall>r\<in>set (spacex_df g). exact_against (Payload_Mass r) low
                                     \<and> exact_against (Payload_Mass r) high"
    and "value_of high < value_of low"
  shows "filterByPayloadRange (spacex_df g) low high = []
         \<and> fst (update_scatter_chart entered_site [low, high] g) =
             Inr (Scatter []
                   (if entered_site = Some ''ALL'' then ''Payload vs. Outcome for All Sites''
                    else ''Payload vs. Outcome for site '' @ format_site entered_site))"
proof -
  have e: "filterByPayloadRange (spacex_df g) low high = []"
    unfolding filterByPayloadRange_filter filter_empty_conv
  proof
    fix r assume r: "r \<in> set (spacex_df g)"
    with assms(1) have "number_ge (Payload_Mass r) low = (value_of low \<le> value_of (Payload_Mass r))"
      and "number_le (Payload_Mass r) high = (value_of (Payload_Mass r) \<le> value_of high)"
      by (simp_all add: number_ge_exact number_le_exact)
    with assms(2)
    show "\<not> (number_ge (Payload_Mass r) low \<and> number_le (Payload_Mass r) high)"
      by auto
  qed
  show ?thesis
    by (simp add: e update_scatter_chart_def filterBySite_filter)
qed

text \<open>The bounds 2000 (an integer) and 1000 (a float) on the scenario table.\<close>

theorem inverted_range_empty_witness:
  "list_all (\<lambda>r. exact_against (Payload_Mass r) (Int64 2000)
                 \<and> exact_against (Payload_Mass r) (Float64 1000))
     (spacex_df (load example_launches))
   \<and> value_of (Float64 1000) < value_of (Int64 2000)
   \<and> filterByPayloadRange (spacex_df (load example_launches)) (Int64 2000) (Float64 1000) = []
   \<and> fst (update_scatter_chart (Some ''SiteA'') [Int64 2000, Float64 1000]
           (load example_launches)) =
       Inr (Scatter [] ''Payload vs. Outcome for site SiteA'')"
proof -
  have h: "\<forall>r\<in>set (spacex_df (load example_launches)).
             exact_against (Payload_Mass r) (Int64 2000)
             \<and> exact_against (Payload_Mass r) (Float64 1000)"
    by (simp add: load_def example_launches_def to_float64_exact)
  have v: "value_of (Float64 1000) < value_of (Int64 2000)" by simp
  from inverted_range_empty [OF h v, of "Some ''SiteA''"] h v show ?thesis
    by (simp add: list_all_iff)
qed

subsection \<open>The pie chart\<close>

text \<open>
  C1, as stated, fails: the grouped frame of a site lists only the outcome classes that
  occur among the rows of that site. At \<open>SiteB\<close> of the scenario table every launch
  succeeded, and class 0 is absent from the result rather than listed with the count 0.
\<close>

theorem siteOutcomeCounts_counterexample:
  "siteOutcomeCounts example_launches (Some ''SiteB'') = [(1, 1)]
   \<and> 0 \<notin> fst ` set (siteOutcomeCounts example_launches (Some ''SiteB''))
   \<and> fst (get_pie_chart (Some ''SiteB'') (load example_launches)) =
       Pie_by_class [(1, 1)] ''Total Success vs. Failure for Site SiteB''"
  by (simp add: siteOutcomeCounts_def get_pie_chart_def load_def filterBySite_filter
        example_launches_def groupby_size_def)

text \<open>
  C1, amended. The result of \<open>siteOutcomeCounts\<close> lists exactly the outcome classes that
  occur among the rows of the site, each once and in ascending order; every line carries
  the number of rows of the site with that class, which is positive; and the counts sum to
  the number of rows of the site.
\<close>

theorem siteOutcomeCounts_occurring_classes:
  "map fst (siteOutcomeCounts df site) =
     sorted_list_of_set (outcome_class ` {r \<in> set df. Some (Launch_Site r) = site})
   \<and> (\<forall>(c, n) \<in> set (siteOutcomeCounts df site).
         0 < n \<and> n = length (filter (\<lambda>r. Some (Launch_Site r) = site \<and> outcome_class r = c) df))
   \<and> sum_list (map snd (siteOutcomeCounts df site)) =
       length (filter (\<lambda>r. Some (Launch_Site r) = site) df)"
proof (intro conjI)
  show "map fst (siteOutcomeCounts df site) =
     sorted_list_of_set (outcome_class ` {r \<in> set df. Some (Launch_Site r) = site})"
    by (simp add: siteOutcomeCounts_def keys_groupby_size filterBySite_filter)
  show "\<forall>(c, n) \<in> set (siteOutcomeCounts df site).
         0 < n \<and> n = length (filter (\<lambda>r. Some (Launch_Site r) = site \<and> outcome_class r = c) df)"
    by (auto simp: siteOutcomeCounts_def set_groupby_size filterBySite_filter length_filter_map
          length_pos_if_in_set filter_empty_conv intro!: arg_cong[where f=length] filter_cong)
  show "sum_list (map snd (siteOutcomeCounts df site)) =
       length (filter (\<lambda>r. Some (Launch_Site r) = site) df)"
    by (simp add: siteOutcomeCounts_def sum_groupby_size filterBySite_filter)
qed

text \<open>\<open>SiteA\<close> of the scenario table has one failed and one successful launch.\<close>

theorem siteOutcomeCounts_occurring_classes_witness:
  "(0, 1) \<in> set (siteOutcomeCounts example_launches (Some ''SiteA''))
   \<and> (1::nat) = length (filter (\<lambda>r. Some (Launch_Site r) = Some ''SiteA'' \<and> outcome_class r = 0)
                       example_launches)
   \<and> map fst (siteOutcomeCounts example_launches (Some ''SiteA'')) = [0, 1]
   \<and> sum_list (map snd (siteOutcomeCounts example_launches (Some ''SiteA''))) =
       length (filter (\<lambda>r. Some (Launch_Site r) = Some ''SiteA'') example_launches)"
proof -
  note t = siteOutcomeCounts_occurring_classes [of example_launches "Some ''SiteA''"]
  have m: "(0, 1) \<in> set (siteOutcomeCounts example_launches (Some ''SiteA''))"
    by (simp add: siteOutcomeCounts_def filterBySite_filter example_launches_def
          groupby_size_def)
  have k: "map fst (siteOutcomeCounts example_launches (Some ''SiteA'')) = [0, 1]"
    by (simp add: siteOutcomeCounts_def filterBySite_filter example_launches_def
          groupby_size_def)
  from t m have "(1::nat) = length (filter (\<lambda>r. Some (Launch_Site r) = Some ''SiteA''
                    \<and> outcome_class r = 0) example_launches)"
    by blast
  with t m k show ?thesis by blast
qed

text \<open>
  C4. For a table whose outcome classes are all 0 or 1, the values of the sectors that the
  pie chart for all sites shows add up to the number of rows with outcome class 1.
\<close>

theorem siteSuccessTotals_sum:
  assumes "\<forall>r\<in>set df. outcome_class r \<le> 1"
  shows "sum_list (map snd (siteSuccessTotals df)) =
           length (filter (\<lambda>r. outcome_class r = 1) df)"
proof -
  have "sum_list (map snd (siteSuccessTotals df)) = sum_list (map outcome_class df)"
    by (simp add: siteSuccessTotals_def sum_pie_sectors comp_def)
  also have "\<dots> = length (filter (\<lambda>x. x = 1) (map outcome_class df))"
    using assms by (intro sum_binary_column) simp
  finally show ?thesis by (simp add: comp_def)
qed

text \<open>The scenario table has two successful launches.\<close>

theorem siteSuccessTotals_sum_witness:
  "list_all (\<lambda>r. outcome_class r \<le> 1) example_launches
   \<and> sum_list (map snd (siteSuccessTotals example_launches)) = 2
   \<and> length (filter (\<lambda>r. outcome_class r = 1) example_launches) = 2"
  using siteSuccessTotals_sum [of example_launches]
  by (simp add: example_launches_def)

text \<open>
  C6. The scenario table: for \<^verbatim>\<open>'ALL'\<close> the pie chart is drawn from the whole table and
  shows \<open>SiteA\<close> with 1 and \<open>SiteB\<close> with 1; for \<^verbatim>\<open>'SiteA'\<close> it is drawn from the
  counts 1 for class 0 and 1 for class 1; with the payload range from 0 to 1000 and
  \<^verbatim>\<open>'ALL'\<close> the scatter chart is drawn from the single row of \<open>SiteA\<close> with payload 500
  and class 1.
\<close>

theorem scenario_table:
  "fst (get_pie_chart (Some ''ALL'') (load example_launches)) =
     Pie_by_site example_launches ''Total Success Launches By Site''
   \<and> siteSuccessTotals example_launches = [(''SiteA'', 1), (''SiteB'', 1)]
   \<and> fst (get_pie_chart (Some ''SiteA'') (load example_launches)) =
       Pie_by_class [(0, 1), (1, 1)] ''Total Success vs. Failure for Site SiteA''
   \<and> fst (update_scatter_chart (Some ''ALL'') [Int64 0, Int64 1000] (load example_launches)) =
       Inr (Scatter
             [\<lparr>Launch_Site = ''SiteA'', Payload_Mass = Int64 500, outcome_class = 1,
                Booster_Version_Category = ''v1''\<rparr>]
             ''Payload vs. Outcome for All Sites'')"
  by (simp add: get_pie_chart_def update_scatter_chart_def load_def siteSuccessTotals_def
        pie_sectors_def filterBySite_filter filterByPayloadRange_filter groupby_size_def
        example_launches_def)

subsection \<open>Sites that do not occur\<close>

text \<open>
  C7. For a selected site that is not \<^verbatim>\<open>'ALL'\<close> and occurs in no row of the table, the
  pie callback returns a pie over the empty frame and the scatter callback, given any two
  bounds, returns a scatter plot over the empty frame. No selected site makes the scatter
  callback raise when it is given two bounds; the pie callback has no raising branch.
\<close>

theorem unknown_site_empty:
  assumes "entered_site \<noteq> Some ''ALL''"
    and "\<forall>r\<in>set (spacex_df g). Some (Launch_Site r) \<noteq> entered_site"
  shows "fst (get_pie_chart entered_site g) =
           Pie_by_class [] (''Total Success vs. Failure for Site '' @ format_site entered_site)
         \<and> fst (update_scatter_chart entered_site [low, high] g) =
             Inr (Scatter [] (''Payload vs. Outcome for site '' @ format_site entered_site))
         \<and> (\<forall>site. \<exists>fig. fst (update_scatter_chart site [low, high] g) = Inr fig)"
proof -
  have "filterBySite df entered_site = []" if "set df \<subseteq> set (spacex_df g)" for df
    using assms(2) that by (auto simp: filterBySite_filter filter_empty_conv)
  moreover have "set (filterByPayloadRange (spacex_df g) low high) \<subseteq> set (spacex_df g)"
    by (simp add: filterByPayloadRange_filter)
  ultimately show ?thesis
    using assms(1)
    by (simp add: get_pie_chart_def update_scatter_chart_def groupby_size_def Let_def)
qed

text \<open>\<open>SiteC\<close> does not occur in the scenario table.\<close>

theorem unknown_site_empty_witness:
  "Some ''SiteC'' \<noteq> Some ''ALL''
   \<and> ''SiteC'' \<notin> Launch_Site ` set (spacex_df (load example_launches))
   \<and> fst (get_pie_chart (Some ''SiteC'') (load example_launches)) =
       Pie_by_class [] ''Total Success vs. Failure for Site SiteC''
   \<and> fst (update_scatter_chart (Some ''SiteC'') [Int64 0, Int64 10000] (load example_launches)) =
       Inr (Scatter [] ''Payload vs. Outcome for site SiteC'')"
  using unknown_site_empty [of "Some ''SiteC''" "load example_launches" "Int64 0" "Int64 10000"]
  by (simp add: load_def example_launches_def)

subsection \<open>State\<close>

text \<open>
  C8. The pie chart for \<^verbatim>\<open>'ALL'\<close> is the same before and after a call for any site: it
  is computed from the selected site and the loaded table alone. The same holds after
  any sequence of calls of either callback.
\<close>

theorem pie_all_site_all:
  "fst (get_pie_chart (Some ''ALL'')
         (snd (get_pie_chart site (snd (get_pie_chart (Some ''ALL'') g))))) =
     fst (get_pie_chart (Some ''ALL'') g)
   \<and> fst (get_pie_chart (Some ''ALL'') (fold serve reqs g)) =
       fst (get_pie_chart (Some ''ALL'') g)
   \<and> fst (get_pie_chart (Some ''ALL'') g) =
       Pie_by_site (spacex_df g) ''Total Success Launches By Site''"
  by (simp add: snd_get_pie_chart fold_serve_state) (simp add: get_pie_chart_def)

text \<open>
  C9. Neither callback changes the module state, whatever its inputs: the loaded table
  (and every other module-level value) after the call is the one before the call.
\<close>

theorem callbacks_leave_state:
  "snd (get_pie_chart entered_site g) = g
   \<and> snd (update_scatter_chart entered_site payload_range g) = g
   \<and> spacex_df (snd (get_pie_chart entered_site g)) = spacex_df g
   \<and> spacex_df (snd (update_scatter_chart entered_site payload_range g)) = spacex_df g"
  by (simp add: get_pie_chart_def update_scatter_chart_def Let_def split: list.splits)

end
